theory Spec2Isabelle
  imports Complex_Main "HOL-Library.Word"
begin

section \<open>Items: internal/data/items.go\<close>

text \<open>
  An \<open>ObjectID\<close> is the store's opaque document key; the zero value is the nil
  identifier that \<open>bson:"_id,omitempty"\<close> leaves out of an inserted document.
  A \<open>Time\<close> is an instant of the UTC clock, counted in clock ticks.
  \<open>Price\<close> is a \<open>float64\<close> in the source. The only operations the code applies to
  it are the two comparisons of \<open>Between\<close> against the literals \<open>0.1\<close> and
  \<open>1000.0\<close>; a finite double is a rational number and comparing doubles is comparing
  these numbers, so a price is modelled by the number it denotes (a decimal literal
  standing for the double it is rounded to, the same double for the same literal).
\<close>

type_synonym ObjectID = nat
type_synonym Time = int
type_synonym int32 = "32 word"

definition NilObjectID :: ObjectID where
  "NilObjectID = 0"

record Item =
  ID :: ObjectID
  Name :: string
  Description :: string
  Price :: real
  Version :: int32
  CreatedAt :: Time
  UpdatedAt :: Time

definition GetID :: "Item \<Rightarrow> ObjectID" where
  "GetID i = ID i"

definition GetVersion :: "Item \<Rightarrow> int32" where
  "GetVersion i = Version i"

text \<open>
  \<open>SetVersion\<close> has a value receiver: Go copies the item into the method, the
  assignment changes the copy, and the copy is returned. The caller's item is the
  argument \<open>i\<close> of the function below, which no assignment reaches.
\<close>

definition SetVersion :: "Item \<Rightarrow> int32 \<Rightarrow> Item" where
  "SetVersion i version = i\<lparr>Version := version\<rparr>"

subsection \<open>The validator used by \<open>ValidateItem\<close>\<close>

text \<open>
  Modelled from the spec: the package \<open>validator\<close> of Play.Common (\<open>New\<close>,
  \<open>Check\<close>, \<open>Between\<close>, \<open>HasErrors\<close> and the \<open>Errors\<close> map) is imported by the
  source and is not part of it. A validator is its \<open>Errors\<close> map from field keys
  to messages, kept as the list of its entries in the order they were added.
  \<open>Check ok key message\<close> records \<open>message\<close> under \<open>key\<close> when \<open>ok\<close> is false, and
  keeps the first message of a key. \<open>Between\<close> is the inclusive range test that the
  spec (price within [0.1, 1000] inclusive) and the message of \<open>ValidateItem\<close>
  (greater or equal, lower or equal) describe.
\<close>

type_synonym Validator = "(string \<times> string) list"

definition New :: Validator where
  "New = []"

definition HasErrors :: "Validator \<Rightarrow> bool" where
  "HasErrors v = (v \<noteq> [])"

definition AddError :: "string \<Rightarrow> string \<Rightarrow> Validator \<Rightarrow> Validator" where
  "AddError key message v = (if map_of v key = None then v @ [(key, message)] else v)"

definition Check :: "bool \<Rightarrow> string \<Rightarrow> string \<Rightarrow> Validator \<Rightarrow> Validator" where
  "Check ok key message v = (if ok then v else AddError key message v)"

definition Between :: "real \<Rightarrow> real \<Rightarrow> real \<Rightarrow> bool" where
  "Between val lo hi = (lo \<le> val \<and> val \<le> hi)"

text \<open>The three checks of \<open>ValidateItem\<close>, in the order of the source (lines 48 to 50).\<close>

definition ValidateItem :: "Validator \<Rightarrow> Item \<Rightarrow> Validator" where
  "ValidateItem v item =
     Check (Between (Price item) 0.1 1000.0) ''price''
       ''must be greater or equal to 0.1 and lower or equal to 1000''
       (Check (Description item \<noteq> []) ''name'' ''must be provided''
         (Check (Name item \<noteq> []) ''name'' ''must be provided'' v))"

section \<open>Collection provisioning: \<open>CreateItemsCollection\<close> and its call in \<open>main\<close>\<close>

text \<open>
  The two driver calls of \<open>CreateItemsCollection\<close> act on the database. A database
  is the set of its collections and the set of collections whose indexes exist.
  \<open>CreateCollection\<close> fails with \<open>NamespaceExists\<close> on a collection that is there;
  either call can also fail for a reason of the server or the connection
  (\<open>CommandFailed\<close>), which the caller cannot foresee: the flag \<open>fault\<close> of each
  call says whether it does.
\<close>

datatype mongo_error = NamespaceExists | CommandFailed

record database =
  collections :: "string set"
  indexed :: "string set"

definition ItemsCollection :: string where
  "ItemsCollection = ''items''"

definition CreateCollection :: "string \<Rightarrow> bool \<Rightarrow> database \<Rightarrow> mongo_error option \<times> database" where
  "CreateCollection name fault db =
     (if fault then (Some CommandFailed, db)
      else if name \<in> collections db then (Some NamespaceExists, db)
      else (None, db\<lparr>collections := insert name (collections db)\<rparr>))"

definition CreateMany :: "string \<Rightarrow> bool \<Rightarrow> database \<Rightarrow> mongo_error option \<times> database" where
  "CreateMany name fault db =
     (if fault then (Some CommandFailed, db)
      else (None, db\<lparr>indexed := insert name (indexed db)\<rparr>))"

text \<open>
  Lines 102 to 128 of items.go: any error of \<open>CreateCollection\<close> ends the function
  with \<open>nil\<close>; an error of \<open>CreateMany\<close> is returned.
\<close>

definition CreateItemsCollection ::
  "bool \<Rightarrow> bool \<Rightarrow> database \<Rightarrow> mongo_error option \<times> database" where
  "CreateItemsCollection create_fault index_fault db =
     (case CreateCollection ItemsCollection create_fault db of
        (Some err, db1) \<Rightarrow> (None, db1)
      | (None, db1) \<Rightarrow>
          (case CreateMany ItemsCollection index_fault db1 of
             (Some err, db2) \<Rightarrow> (Some err, db2)
           | (None, db2) \<Rightarrow> (None, db2)))"

text \<open>Lines 53 to 56 of \<open>main\<close>: an error of the provisioning is fatal.\<close>

datatype startup = Fatal mongo_error | Continue

definition main_provisioning :: "bool \<Rightarrow> bool \<Rightarrow> database \<Rightarrow> startup" where
  "main_provisioning create_fault index_fault db =
     (case fst (CreateItemsCollection create_fault index_fault db) of
        Some err \<Rightarrow> Fatal err
      | None \<Rightarrow> Continue)"

section \<open>The versioned repository of items\<close>

text \<open>
  Modelled from the spec: \<open>MongoRepository\<close> of Play.Common (the methods \<open>Create\<close>,
  \<open>GetByID\<close>, \<open>Update\<close> and \<open>GetAll\<close> that the handlers call, and the errors
  \<open>ErrRecordNotFound\<close> and \<open>ErrEditConflict\<close>) is imported by the source and is not
  part of it. The model follows sections 4.1, 6 and 7 of the spec. A collection is
  the list of its documents, each under its key, and a document is looked up by its
  key (\<open>map_of\<close>). A repository value is the collection together with the list of
  the repository methods called so far, each method adding its name.
  A write is refused with \<open>ErrStore\<close> when the new document breaks the validator of
  the collection (items.go, lines 58 to 98: price at least 0.1, version at least 1) or
  one of its unique indexes (lines 109 to 117: name, description). Failures of the
  connection are outside the model: every call reaches the store.
\<close>

datatype repo_error = ErrRecordNotFound | ErrEditConflict | ErrStore

datatype repo_call = CallCreate | CallGetByID | CallUpdate

text \<open>The store's replace of the document under a key; the other documents stay.\<close>

fun replace_doc :: "'k \<Rightarrow> 'e \<Rightarrow> ('k \<times> 'e) list \<Rightarrow> ('k \<times> 'e) list" where
  "replace_doc k d [] = []"
| "replace_doc k d ((k', d') # ds) =
     (if k' = k then (k, d) # ds else (k', d') # replace_doc k d ds)"

type_synonym item_docs = "(ObjectID \<times> Item) list"

record ItemsRepo =
  docs :: item_docs
  calls :: "repo_call list"

definition schema_ok :: "Item \<Rightarrow> bool" where
  "schema_ok d = (0.1 \<le> Price d \<and> 1 \<le> sint (Version d))"

definition unique_ok :: "item_docs \<Rightarrow> ObjectID \<Rightarrow> Item \<Rightarrow> bool" where
  "unique_ok ds k d =
     list_all (\<lambda>(k', d'). k' = k \<or> (Name d' \<noteq> Name d \<and> Description d' \<noteq> Description d)) ds"

text \<open>
  \<open>create(entity)\<close>: the identifier is assigned by the store (\<open>fresh\<close>, the identifier
  generated for this insert) when the entity carries none; a duplicate key or a broken
  constraint is a \<open>StoreError\<close>.
\<close>

definition Create :: "Item \<Rightarrow> ObjectID \<Rightarrow> ItemsRepo \<Rightarrow> (repo_error + ObjectID) \<times> ItemsRepo" where
  "Create entity fresh r =
     (let d = (if GetID entity = NilObjectID then entity\<lparr>ID := fresh\<rparr> else entity);
          r1 = r\<lparr>calls := calls r @ [CallCreate]\<rparr>
      in if map_of (docs r) (ID d) = None \<and> schema_ok d \<and> unique_ok (docs r) (ID d) d
         then (Inr (ID d), r1\<lparr>docs := docs r @ [(ID d, d)]\<rparr>)
         else (Inl ErrStore, r1))"

text \<open>\<open>getByID(id)\<close>: \<open>NotFound\<close> when no document has the identifier.\<close>

definition GetByID :: "ObjectID \<Rightarrow> ItemsRepo \<Rightarrow> (repo_error + Item) \<times> ItemsRepo" where
  "GetByID oid r =
     (let r1 = r\<lparr>calls := calls r @ [CallGetByID]\<rparr>
      in case map_of (docs r) oid of
           None \<Rightarrow> (Inl ErrRecordNotFound, r1)
         | Some d \<Rightarrow> (Inr d, r1))"

text \<open>
  \<open>update(entity)\<close>: the conditional write. The document matched by the entity's
  identifier and the entity's version gets the mutable fields of the entity and its
  stored version plus one, in one step; no match is \<open>EditConflict\<close>, whether the
  document has another version or is gone.
\<close>

definition Update :: "Item \<Rightarrow> ItemsRepo \<Rightarrow> repo_error option \<times> ItemsRepo" where
  "Update entity r =
     (let r1 = r\<lparr>calls := calls r @ [CallUpdate]\<rparr>
      in case map_of (docs r) (GetID entity) of
           None \<Rightarrow> (Some ErrEditConflict, r1)
         | Some stored \<Rightarrow>
             if GetVersion stored = GetVersion entity
             then (let d = SetVersion
                             (stored\<lparr>Name := Name entity, Description := Description entity,
                                Price := Price entity, UpdatedAt := UpdatedAt entity\<rparr>)
                             (GetVersion stored + 1)
                   in if schema_ok d \<and> unique_ok (docs r) (GetID entity) d
                      then (None, r1\<lparr>docs := replace_doc (GetID entity) d (docs r)\<rparr>)
                      else (Some ErrStore, r1))
             else (Some ErrEditConflict, r1))"

subsection \<open>Paginated listing\<close>

text \<open>
  Modelled from the spec: \<open>GetAll\<close> and the types \<open>Filters\<close> and \<open>Metadata\<close> of
  Play.Common are not part of the source. \<open>matching\<close> is what the store's query
  gives for the filter and the sort key before skip and limit: the matching
  documents in sort order. \<open>GetAll\<close> returns the page of \<open>PageSize\<close> documents after
  the first \<open>(Page - 1) * PageSize\<close>, and the metadata: total matching count, current
  page, page size, and total pages, the ceiling of count over page size.
\<close>

record Filters =
  Page :: int
  PageSize :: int
  Sort :: string
  SortSafelist :: "string list"

record Metadata =
  CurrentPage :: int
  MetaPageSize :: int
  TotalPages :: int
  TotalRecords :: int

definition calculateMetadata :: "int \<Rightarrow> int \<Rightarrow> int \<Rightarrow> Metadata" where
  "calculateMetadata totalRecords page pageSize =
     \<lparr>CurrentPage = page, MetaPageSize = pageSize,
      TotalPages = \<lceil>real_of_int totalRecords / real_of_int pageSize\<rceil>,
      TotalRecords = totalRecords\<rparr>"

definition GetAll :: "'e list \<Rightarrow> Filters \<Rightarrow> repo_error + ('e list \<times> Metadata)" where
  "GetAll matching filters =
     (let skip = nat ((Page filters - 1) * PageSize filters);
          limit = nat (PageSize filters)
      in Inr (take limit (drop skip matching),
              calculateMetadata (int (length matching)) (Page filters) (PageSize filters)))"

section \<open>The item handlers\<close>

text \<open>
  A handler takes the application (its items repository), what the request carries
  and what the handler reads from its environment, and returns the response it writes
  and the application afterwards. \<open>ReadObjectIDParam\<close> and \<open>ReadJSON\<close> have run on
  the request: the identifier is \<open>None\<close> when the URL parameter is no ObjectID, the
  body is \<open>None\<close> when it does not decode. Tracing and the encoding of the response
  are left out.
\<close>

datatype response =
    OKResponse string
  | CreatedResponse string ObjectID
  | BadRequestResponse
  | NotFoundResponse
  | FailedValidationResponse Validator
  | EditConflictResponse
  | ServerErrorResponse

record Application =
  ItemsRepository :: ItemsRepo

text \<open>The input struct of \<open>createItemHandler\<close>; a key the body leaves out is the zero value.\<close>

record create_input =
  input_Name :: string
  input_Description :: string
  input_Price :: real

text \<open>
  \<open>createItemHandler\<close>, lines 170 to 245. The item literal reads the clock twice
  (lines 198 and 199): \<open>now1\<close> and \<open>now2\<close> are the two readings of
  \<open>time.Now().UTC()\<close>, in this order.
\<close>

definition createItemHandler ::
  "Application \<Rightarrow> create_input option \<Rightarrow> Time \<Rightarrow> Time \<Rightarrow> ObjectID \<Rightarrow> response \<times> Application" where
  "createItemHandler app body now1 now2 fresh =
     (case body of
        None \<Rightarrow> (BadRequestResponse, app)
      | Some input \<Rightarrow>
          (let item = \<lparr>ID = NilObjectID, Name = input_Name input,
                       Description = input_Description input, Price = input_Price input,
                       Version = 1, CreatedAt = now1, UpdatedAt = now2\<rparr>;
               v = ValidateItem New item
           in if HasErrors v then (FailedValidationResponse v, app)
              else (case Create item fresh (ItemsRepository app) of
                      (Inl err, r) \<Rightarrow> (ServerErrorResponse, app\<lparr>ItemsRepository := r\<rparr>)
                    | (Inr oid, r) \<Rightarrow>
                        (CreatedResponse ''Item created successfully'' oid,
                         app\<lparr>ItemsRepository := r\<rparr>))))"

text \<open>The input struct of \<open>updateItemHandler\<close>: a nil pointer is \<open>None\<close>.\<close>

record update_input =
  ptr_Name :: "string option"
  ptr_Description :: "string option"
  ptr_Price :: "real option"

text \<open>Lines 301 to 315: the supplied fields are copied into the fetched item, then the date.\<close>

definition copyInput :: "update_input \<Rightarrow> Time \<Rightarrow> Item \<Rightarrow> Item" where
  "copyInput input now item =
     (let item1 = (case ptr_Name input of None \<Rightarrow> item | Some n \<Rightarrow> item\<lparr>Name := n\<rparr>);
          item2 = (case ptr_Description input of None \<Rightarrow> item1
                   | Some d \<Rightarrow> item1\<lparr>Description := d\<rparr>);
          item3 = (case ptr_Price input of None \<Rightarrow> item2 | Some p \<Rightarrow> item2\<lparr>Price := p\<rparr>)
      in item3\<lparr>UpdatedAt := now\<rparr>)"

text \<open>
  \<open>updateItemHandler\<close>, lines 248 to 355. The handler reads the item (line 269) and
  writes it later (line 330); the store is shared with the other requests, and
  \<open>other\<close> is what their writes make of the collection between these two calls
  (the identity when there is none).
\<close>

definition updateItemHandler ::
  "Application \<Rightarrow> ObjectID option \<Rightarrow> update_input option \<Rightarrow> Time \<Rightarrow> (item_docs \<Rightarrow> item_docs)
    \<Rightarrow> response \<times> Application" where
  "updateItemHandler app id_param body now other =
     (case id_param of
        None \<Rightarrow> (NotFoundResponse, app)
      | Some oid \<Rightarrow>
          (case GetByID oid (ItemsRepository app) of
             (Inl err, r) \<Rightarrow>
               (case err of
                  ErrRecordNotFound \<Rightarrow> (NotFoundResponse, app\<lparr>ItemsRepository := r\<rparr>)
                | _ \<Rightarrow> (ServerErrorResponse, app\<lparr>ItemsRepository := r\<rparr>))
           | (Inr fetched, r) \<Rightarrow>
               (case body of
                  None \<Rightarrow> (BadRequestResponse, app\<lparr>ItemsRepository := r\<rparr>)
                | Some input \<Rightarrow>
                    (let item = copyInput input now fetched;
                         v = ValidateItem New item
                     in if HasErrors v
                        then (FailedValidationResponse v, app\<lparr>ItemsRepository := r\<rparr>)
                        else (case Update item (r\<lparr>docs := other (docs r)\<rparr>) of
                                (Some err, r2) \<Rightarrow>
                                  (case err of
                                     ErrEditConflict \<Rightarrow>
                                       (EditConflictResponse, app\<lparr>ItemsRepository := r2\<rparr>)
                                   | _ \<Rightarrow> (ServerErrorResponse, app\<lparr>ItemsRepository := r2\<rparr>))
                              | (None, r2) \<Rightarrow>
                                  (OKResponse ''Item updated successfully'',
                                   app\<lparr>ItemsRepository := r2\<rparr>))))))"

section \<open>The replica synchronization consumer\<close>

text \<open>
  Modelled from the spec: the consumer of user-updated events (package
  \<open>internal/rabbitmq\<close>, started by \<open>main\<close>), the message it decodes and the type
  \<open>User\<close> of Play.Common are not part of the source. The model follows section 4.3
  of the spec. The replica collection is the list of the replicas under their user
  identifiers (\<open>int64\<close>); versions are \<open>int32\<close>, the type of \<open>GetVersion\<close> that the repository
  demands of its entities, compared as signed numbers.
\<close>

type_synonym int64 = "64 word"

record User =
  UserID :: int64
  UserName :: string
  Permissions :: "string list"
  UserVersion :: int32

type_synonym user_docs = "(int64 \<times> User) list"

text \<open>The decoded payload: identifier, name, permissions and version.\<close>

record UserUpdated =
  msg_ID :: int64
  msg_Name :: string
  msg_Permissions :: "string list"
  msg_Version :: int32

definition replicaOf :: "UserUpdated \<Rightarrow> User" where
  "replicaOf m =
     \<lparr>UserID = msg_ID m, UserName = msg_Name m, Permissions = msg_Permissions m,
      UserVersion = msg_Version m\<rparr>"

definition users_GetByID :: "int64 \<Rightarrow> user_docs \<Rightarrow> repo_error + User" where
  "users_GetByID uid us =
     (case map_of us uid of None \<Rightarrow> Inl ErrRecordNotFound | Some u \<Rightarrow> Inr u)"

definition users_Create :: "User \<Rightarrow> user_docs \<Rightarrow> repo_error + user_docs" where
  "users_Create u us =
     (if map_of us (UserID u) = None then Inr (us @ [(UserID u, u)]) else Inl ErrStore)"

text \<open>
  \<open>update(entity)\<close> of section 4.1 on the replica collection, the same conditional
  write as for items: the document matched by the entity's identifier and the
  entity's version gets the mutable fields of the entity and its stored version plus
  one; no match is \<open>EditConflict\<close>.
\<close>

definition users_Update :: "User \<Rightarrow> user_docs \<Rightarrow> repo_error + user_docs" where
  "users_Update entity us =
     (case map_of us (UserID entity) of
        None \<Rightarrow> Inl ErrEditConflict
      | Some stored \<Rightarrow>
          if UserVersion stored = UserVersion entity
          then Inr (replace_doc (UserID entity)
                      (stored\<lparr>UserName := UserName entity, Permissions := Permissions entity,
                         UserVersion := UserVersion stored + 1\<rparr>) us)
          else Inl ErrEditConflict)"

datatype delivery = Ack | Nack

text \<open>
  The per-message protocol, steps 1 to 4 of section 4.3. A payload that does not
  decode is \<open>None\<close>. For a newer event the incoming fields are applied to the
  fetched replica, its version is set to the incoming one, and the repository's
  \<open>update\<close> is called with it. A message is acknowledged after a successful apply
  and after a discard, and left for redelivery after a decode failure or a repository
  failure.
\<close>

definition handleMessage :: "UserUpdated option \<Rightarrow> user_docs \<Rightarrow> delivery \<times> user_docs" where
  "handleMessage payload us =
     (case payload of
        None \<Rightarrow> (Nack, us)
      | Some m \<Rightarrow>
          (case users_GetByID (msg_ID m) us of
             Inl ErrRecordNotFound \<Rightarrow>
               (case users_Create (replicaOf m) us of
                  Inl err \<Rightarrow> (Nack, us)
                | Inr us1 \<Rightarrow> (Ack, us1))
           | Inl err \<Rightarrow> (Nack, us)
           | Inr stored \<Rightarrow>
               if sint (msg_Version m) \<le> sint (UserVersion stored) then (Ack, us)
               else (case users_Update
                            (stored\<lparr>UserName := msg_Name m, Permissions := msg_Permissions m,
                               UserVersion := msg_Version m\<rparr>) us of
                       Inl err \<Rightarrow> (Nack, us)
                     | Inr us1 \<Rightarrow> (Ack, us1))))"

text \<open>The receive loop on a finite run of deliveries, one message after the other.\<close>

fun consume :: "UserUpdated option list \<Rightarrow> user_docs \<Rightarrow> user_docs" where
  "consume [] us = us"
| "consume (payload # rest) us = consume rest (snd (handleMessage payload us))"

section \<open>Example data\<close>

text \<open>
  A catalog holding one item, a request body that supplies only a price, the write of
  another request that lands on the same item, and a user-updated event.
\<close>

definition potion :: Item where
  "potion = \<lparr>ID = 7, Name = ''Potion'', Description = ''Restores HP'', Price = 5,
             Version = 1, CreatedAt = 1000, UpdatedAt = 1000\<rparr>"

definition shop :: Application where
  "shop = \<lparr>ItemsRepository = \<lparr>docs = [(7, potion)], calls = []\<rparr>\<rparr>"

definition price_only :: "real \<Rightarrow> update_input" where
  "price_only p = \<lparr>ptr_Name = None, ptr_Description = None, ptr_Price = Some p\<rparr>"

definition rival :: "item_docs \<Rightarrow> item_docs" where
  "rival ds = replace_doc 7 (potion\<lparr>Price := 6, Version := 2, UpdatedAt := 1500\<rparr>) ds"

definition alice :: "int32 \<Rightarrow> string list \<Rightarrow> UserUpdated" where
  "alice v perms = \<lparr>msg_ID = 42, msg_Name = ''alice'', msg_Permissions = perms, msg_Version = v\<rparr>"

section \<open>Properties of the item type and its validation\<close>

lemma map_of_Check:
  "map_of (Check ok key message v) k =
     (if \<not> ok \<and> k = key \<and> map_of v key = None then Some message else map_of v k)"
  by (auto simp: Check_def AddError_def map_add_def split: option.splits)

lemma Check_nonempty: "v \<noteq> [] \<Longrightarrow> Check ok key message v \<noteq> []"
  by (auto simp: Check_def AddError_def)

lemma Check_False_nonempty: "Check False key message v \<noteq> []"
  by (auto simp: Check_def AddError_def)

lemma Check_True: "Check True key message v = v"
  by (simp add: Check_def)

lemma HasErrors_ValidateItem:
  "HasErrors (ValidateItem New i) =
     (Name i = [] \<or> Description i = [] \<or> Price i < 0.1 \<or> 1000 < Price i)"
proof (cases "Name i = []")
  case True
  then show ?thesis
    by (simp add: HasErrors_def ValidateItem_def Check_nonempty Check_False_nonempty)
next
  case name: False
  show ?thesis
  proof (cases "Description i = []")
    case True
    then show ?thesis
      by (simp add: HasErrors_def ValidateItem_def Check_nonempty Check_False_nonempty)
  next
    case False
    with name show ?thesis
      by (cases "Between (Price i) 0.1 1000")
        (auto simp: HasErrors_def ValidateItem_def Check_True Check_False_nonempty New_def
          Between_def)
  qed
qed

text \<open>
  C8. \<open>SetVersion i v\<close> is an item whose version is \<open>v\<close> and whose identifier,
  name, description, price and two timestamps are those of \<open>i\<close>; the item \<open>i\<close>
  it was called on still has its own version.
\<close>

theorem SetVersion_frame:
  "Version (SetVersion i v) = v \<and> GetVersion (SetVersion i v) = v
   \<and> ID (SetVersion i v) = ID i
   \<and> Name (SetVersion i v) = Name i
   \<and> Description (SetVersion i v) = Description i
   \<and> Price (SetVersion i v) = Price i
   \<and> CreatedAt (SetVersion i v) = CreatedAt i
   \<and> UpdatedAt (SetVersion i v) = UpdatedAt i
   \<and> SetVersion (SetVersion i v) (Version i) = i"
  by (simp add: SetVersion_def GetVersion_def)

text \<open>
  C5. Validation of an item with a name and a description accepts the prices 0.1 and
  1000 and rejects 0.09999 and 1000.01; it rejects every item with an empty name and every
  item with an empty description. In general it reports an error exactly when the name
  or the description is empty or the price lies outside [0.1, 1000].
\<close>

theorem ValidateItem_boundaries:
  "\<not> HasErrors (ValidateItem New (i\<lparr>Name := a # n, Description := b # d, Price := 0.1\<rparr>))
   \<and> \<not> HasErrors (ValidateItem New (i\<lparr>Name := a # n, Description := b # d, Price := 1000\<rparr>))
   \<and> HasErrors (ValidateItem New (i\<lparr>Price := 0.09999\<rparr>))
   \<and> HasErrors (ValidateItem New (i\<lparr>Price := 1000.01\<rparr>))
   \<and> HasErrors (ValidateItem New (i\<lparr>Name := []\<rparr>))
   \<and> HasErrors (ValidateItem New (i\<lparr>Description := []\<rparr>))
   \<and> HasErrors (ValidateItem New i) =
       (Name i = [] \<or> Description i = [] \<or> Price i < 0.1 \<or> 1000 < Price i)"
  by (simp add: HasErrors_ValidateItem)

text \<open>
  C10. For an item with an empty description validation fails, and the message
  is recorded under the key \<open>name\<close>; validation never writes the key \<open>description\<close>:
  a fresh validator has no entry for it afterwards, whatever the item.
\<close>

theorem ValidateItem_description_key:
  "HasErrors (ValidateItem New (i\<lparr>Description := []\<rparr>))
   \<and> map_of (ValidateItem New (i\<lparr>Description := []\<rparr>)) ''name'' = Some ''must be provided''
   \<and> map_of (ValidateItem New j) ''description'' = None
   \<and> map_of (ValidateItem v j) ''description'' = map_of v ''description''"
  by (simp add: HasErrors_ValidateItem) (simp add: ValidateItem_def map_of_Check New_def)

section \<open>Provisioning\<close>

lemma CreateItemsCollection_exists:
  "ItemsCollection \<in> collections db \<Longrightarrow> CreateItemsCollection False index_fault db = (None, db)"
  by (simp add: CreateItemsCollection_def CreateCollection_def)

lemma CreateItemsCollection_index_failure:
  "ItemsCollection \<notin> collections db \<Longrightarrow>
   fst (CreateItemsCollection False True db) = Some CommandFailed
   \<and> main_provisioning False True db = Fatal CommandFailed"
  by (simp add: main_provisioning_def CreateItemsCollection_def CreateCollection_def
      CreateMany_def)

text \<open>
  C4. When \<open>CreateCollection\<close> fails for a reason other than the collection
  existing, \<open>CreateItemsCollection\<close> returns no error and leaves the database as it
  was (no collection, no index), and \<open>main\<close> goes on: this failure of the
  provisioning is not propagated.
\<close>

theorem CreateItemsCollection_swallows_failure:
  "CreateItemsCollection True index_fault db = (None, db)
   \<and> main_provisioning True index_fault db = Continue"
  by (simp add: main_provisioning_def CreateItemsCollection_def CreateCollection_def)

section \<open>The repository and the handlers\<close>

lemma sint_succ32:
  assumes "1 \<le> sint (v + 1)"
  shows "sint (v + 1 :: 32 word) = sint v + 1"
proof -
  have lo: "- (2 ^ 31) \<le> sint v" using sint_ge [of v] by simp
  have hi: "sint v < 2 ^ 31" using sint_lt [of v] by simp
  show ?thesis
  proof (cases "sint v = 2 ^ 31 - 1")
    case True
    then have "word_of_int (sint v) = (word_of_int (2 ^ 31 - 1) :: 32 word)" by simp
    then have "v = word_of_int (2 ^ 31 - 1)" by simp
    then have "sint (v + 1) = - (2 ^ 31)" by simp
    with assms show ?thesis by simp
  next
    case False
    with lo hi have "- (2 ^ 31) \<le> sint v + 1 \<and> sint v + 1 < 2 ^ 31" by simp
    then have "signed_take_bit 31 (sint v + 1) = sint v + 1"
      by (simp add: signed_take_bit_int_eq_self_iff)
    then show ?thesis by (simp add: sint_word_ariths)
  qed
qed

lemma map_of_replace_doc:
  "map_of (replace_doc k d ds) k' =
     (if k' = k \<and> map_of ds k \<noteq> None then Some d else map_of ds k')"
  by (induction ds) auto

lemma map_fst_replace_doc: "map fst (replace_doc k d ds) = map fst ds"
  by (induction ds) auto

lemma Update_no_match:
  assumes "map_of (docs r) (GetID e) = None
             \<or> (\<exists>d. map_of (docs r) (GetID e) = Some d \<and> Version d \<noteq> Version e)"
  shows "Update e r = (Some ErrEditConflict, r\<lparr>calls := calls r @ [CallUpdate]\<rparr>)"
  using assms by (auto simp: Update_def GetVersion_def Let_def)

lemma Update_success:
  assumes "Update e r = (None, r')"
  shows "\<exists>stored. map_of (docs r) (GetID e) = Some stored \<and> Version stored = Version e
           \<and> sint (Version stored + 1) = sint (Version stored) + 1
           \<and> docs r' = replace_doc (GetID e)
                 (stored\<lparr>Name := Name e, Description := Description e, Price := Price e,
                    UpdatedAt := UpdatedAt e, Version := Version stored + 1\<rparr>) (docs r)
           \<and> calls r' = calls r @ [CallUpdate]"
  using assms
  by (auto simp: Update_def GetVersion_def SetVersion_def Let_def schema_ok_def
      intro: sint_succ32 split: option.splits if_splits)

lemma copyInput_fields:
  "Name (copyInput input now item) = (case ptr_Name input of None \<Rightarrow> Name item | Some n \<Rightarrow> n)"
  "Description (copyInput input now item) =
     (case ptr_Description input of None \<Rightarrow> Description item | Some d \<Rightarrow> d)"
  "Price (copyInput input now item) = (case ptr_Price input of None \<Rightarrow> Price item | Some p \<Rightarrow> p)"
  "UpdatedAt (copyInput input now item) = now"
  "ID (copyInput input now item) = ID item"
  "Version (copyInput input now item) = Version item"
  "CreatedAt (copyInput input now item) = CreatedAt item"
  by (simp_all add: copyInput_def Let_def split: option.splits)

lemma createItemHandler_created:
  assumes "createItemHandler app body now1 now2 fresh = (CreatedResponse msg oid, app')"
  shows "\<exists>d. map_of (docs (ItemsRepository app')) oid = Some d \<and> Version d = 1
           \<and> CreatedAt d = now1 \<and> UpdatedAt d = now2 \<and> oid = fresh \<and> ID d = fresh"
  using assms
  by (auto simp: createItemHandler_def Create_def GetID_def NilObjectID_def Let_def map_add_def
      split: option.splits if_splits prod.splits sum.splits)

text \<open>
  C6. A create request handled while the clock moves from 1000 to 1001 between
  the two readings of \<open>time.Now()\<close> stores an item of version 1 whose creation
  time is 1000 and whose update time is 1001: the two timestamps of the stored item
  differ.
\<close>

theorem createItemHandler_two_clock_readings:
  "createItemHandler \<lparr>ItemsRepository = \<lparr>docs = [], calls = []\<rparr>\<rparr>
     (Some \<lparr>input_Name = ''Potion'', input_Description = ''Restores HP'', input_Price = 5\<rparr>)
     1000 1001 7
   = (CreatedResponse ''Item created successfully'' 7,
      \<lparr>ItemsRepository =
         \<lparr>docs = [(7, \<lparr>ID = 7, Name = ''Potion'', Description = ''Restores HP'', Price = 5,
                        Version = 1, CreatedAt = 1000, UpdatedAt = 1001\<rparr>)],
          calls = [CallCreate]\<rparr>\<rparr>)"
  by (simp add: createItemHandler_def HasErrors_ValidateItem Create_def GetID_def NilObjectID_def
      schema_ok_def unique_ok_def)

text \<open>
  C1. Let an item be read at some version and let another writer then replace
  it, so that the stored version differs from the version read. An \<open>Update\<close> that
  supplies the version read fails with \<open>ErrEditConflict\<close> and leaves the collection as
  the other writer left it. The update handler, whose request passes validation,
  answers with the edit-conflict response, and the collection after the handler is the
  collection the other writer left: the handler has written nothing.
\<close>

theorem stale_update_is_edit_conflict:
  assumes "map_of (docs (ItemsRepository app)) oid = Some fetched" and "ID fetched = oid"
      and "map_of (other (docs (ItemsRepository app))) oid = Some current"
      and "Version current \<noteq> Version fetched"
  shows "Update (e\<lparr>ID := oid, Version := Version fetched\<rparr>)
           (r\<lparr>docs := other (docs (ItemsRepository app))\<rparr>)
         = (Some ErrEditConflict,
            r\<lparr>docs := other (docs (ItemsRepository app)), calls := calls r @ [CallUpdate]\<rparr>)
       \<and> (\<not> HasErrors (ValidateItem New (copyInput input now fetched)) \<longrightarrow>
            updateItemHandler app (Some oid) (Some input) now other
            = (EditConflictResponse,
               app\<lparr>ItemsRepository :=
                 \<lparr>docs = other (docs (ItemsRepository app)),
                  calls = calls (ItemsRepository app) @ [CallGetByID, CallUpdate]\<rparr>\<rparr>))"
proof (intro conjI impI)
  show "Update (e\<lparr>ID := oid, Version := Version fetched\<rparr>)
           (r\<lparr>docs := other (docs (ItemsRepository app))\<rparr>)
         = (Some ErrEditConflict,
            r\<lparr>docs := other (docs (ItemsRepository app)), calls := calls r @ [CallUpdate]\<rparr>)"
    using assms(3,4) by (simp add: Update_no_match GetID_def)
next
  assume valid: "\<not> HasErrors (ValidateItem New (copyInput input now fetched))"
  let ?r = "(ItemsRepository app)\<lparr>calls := calls (ItemsRepository app) @ [CallGetByID],
              docs := other (docs (ItemsRepository app))\<rparr>"
  have "Update (copyInput input now fetched) ?r
          = (Some ErrEditConflict, ?r\<lparr>calls := calls ?r @ [CallUpdate]\<rparr>)"
    using assms by (intro Update_no_match) (simp add: GetID_def copyInput_fields)
  with valid assms(1) show "updateItemHandler app (Some oid) (Some input) now other
            = (EditConflictResponse,
               app\<lparr>ItemsRepository :=
                 \<lparr>docs = other (docs (ItemsRepository app)),
                  calls = calls (ItemsRepository app) @ [CallGetByID, CallUpdate]\<rparr>\<rparr>)"
    by (simp add: updateItemHandler_def GetByID_def Let_def)
qed

theorem stale_update_is_edit_conflict_witness:
  "Update (potion\<lparr>ID := 7, Version := 1\<rparr>) \<lparr>docs = rival [(7, potion)], calls = [CallGetByID]\<rparr>
     = (Some ErrEditConflict, \<lparr>docs = rival [(7, potion)], calls = [CallGetByID, CallUpdate]\<rparr>)
   \<and> updateItemHandler shop (Some 7) (Some (price_only 9)) 2000 rival
     = (EditConflictResponse,
        \<lparr>ItemsRepository = \<lparr>docs = rival [(7, potion)], calls = [CallGetByID, CallUpdate]\<rparr>\<rparr>)
   \<and> rival [(7, potion)] = [(7, potion\<lparr>Price := 6, Version := 2, UpdatedAt := 1500\<rparr>)]"
proof -
  have h1: "map_of (docs (ItemsRepository shop)) 7 = Some potion" by (simp add: shop_def)
  have h2: "ID potion = 7" by (simp add: potion_def)
  have h3: "map_of (rival (docs (ItemsRepository shop))) 7
              = Some (potion\<lparr>Price := 6, Version := 2, UpdatedAt := 1500\<rparr>)"
    by (simp add: rival_def shop_def)
  have h4: "Version (potion\<lparr>Price := 6, Version := 2, UpdatedAt := 1500\<rparr>) \<noteq> Version potion"
    by (simp add: potion_def)
  have h5: "\<not> HasErrors (ValidateItem New (copyInput (price_only 9) 2000 potion))"
    by (simp add: HasErrors_ValidateItem copyInput_fields price_only_def potion_def)
  from stale_update_is_edit_conflict [where app = shop and oid = 7 and fetched = potion
      and other = rival and current = "potion\<lparr>Price := 6, Version := 2, UpdatedAt := 1500\<rparr>"
      and e = potion and r = "\<lparr>docs = [], calls = [CallGetByID]\<rparr>"
      and input = "price_only 9" and now = 2000] h1 h2 h3 h4 h5
  show ?thesis by (simp add: shop_def potion_def rival_def)
qed

text \<open>
  C3. When the update handler answers with success, the collection holds under
  the item's identifier a document whose name, description and price are the supplied
  values where the body supplies them and the values read from the store where it
  does not, whose update time is the time read from the clock, and whose version is
  the stored version plus one, as a number and not only modulo \<open>2 ^ 32\<close>; its
  identifier and creation time are those of the stored document, and no other
  document is touched.
\<close>

theorem successful_update_effect:
  assumes ok: "updateItemHandler app (Some oid) (Some input) now other = (OKResponse msg, app')"
      and fetched: "map_of (docs (ItemsRepository app)) oid = Some fetched" "ID fetched = oid"
  shows "\<exists>current new.
           map_of (other (docs (ItemsRepository app))) oid = Some current
         \<and> Version current = Version fetched
         \<and> docs (ItemsRepository app') = replace_doc oid new (other (docs (ItemsRepository app)))
         \<and> map_of (docs (ItemsRepository app')) oid = Some new
         \<and> Name new = (case ptr_Name input of None \<Rightarrow> Name fetched | Some n \<Rightarrow> n)
         \<and> Description new =
             (case ptr_Description input of None \<Rightarrow> Description fetched | Some d \<Rightarrow> d)
         \<and> Price new = (case ptr_Price input of None \<Rightarrow> Price fetched | Some p \<Rightarrow> p)
         \<and> UpdatedAt new = now
         \<and> Version new = Version current + 1
         \<and> sint (Version new) = sint (Version current) + 1
         \<and> ID new = ID current \<and> CreatedAt new = CreatedAt current"
proof -
  let ?item = "copyInput input now fetched"
  let ?r = "(ItemsRepository app)\<lparr>calls := calls (ItemsRepository app) @ [CallGetByID],
              docs := other (docs (ItemsRepository app))\<rparr>"
  from ok fetched obtain r2 where upd: "Update ?item ?r = (None, r2)"
    and app': "app' = app\<lparr>ItemsRepository := r2\<rparr>"
    by (auto simp: updateItemHandler_def GetByID_def Let_def
        split: if_splits prod.splits option.splits repo_error.splits)
  from Update_success [OF upd] fetched obtain current where
    cur: "map_of (other (docs (ItemsRepository app))) oid = Some current"
      "Version current = Version fetched"
      "sint (Version current + 1) = sint (Version current) + 1"
      "docs r2 = replace_doc oid
         (current\<lparr>Name := Name ?item, Description := Description ?item, Price := Price ?item,
            UpdatedAt := UpdatedAt ?item, Version := Version current + 1\<rparr>)
         (other (docs (ItemsRepository app)))"
    by (auto simp: GetID_def copyInput_fields)
  let ?new = "current\<lparr>Name := Name ?item, Description := Description ?item,
           Price := Price ?item, UpdatedAt := UpdatedAt ?item, Version := Version current + 1\<rparr>"
  show ?thesis
    using cur app'
    by (intro exI [of _ current] exI [of _ ?new]) (simp add: copyInput_fields map_of_replace_doc)
qed

theorem successful_update_effect_witness:
  "updateItemHandler shop (Some 7) (Some (price_only 9)) 2000 id
     = (OKResponse ''Item updated successfully'',
        \<lparr>ItemsRepository =
           \<lparr>docs = [(7, potion\<lparr>Price := 9, Version := 2, UpdatedAt := 2000\<rparr>)],
            calls = [CallGetByID, CallUpdate]\<rparr>\<rparr>)
   \<and> (\<exists>new. [(7, potion\<lparr>Price := 9, Version := 2, UpdatedAt := 2000\<rparr>)] = [(7 :: ObjectID, new)]
         \<and> Name new = ''Potion'' \<and> Description new = ''Restores HP'' \<and> Price new = 9
         \<and> UpdatedAt new = 2000 \<and> Version new = 2 \<and> sint (Version new) = 2
         \<and> ID new = 7 \<and> CreatedAt new = 1000)"
proof -
  have h1: "updateItemHandler shop (Some 7) (Some (price_only 9)) 2000 id
     = (OKResponse ''Item updated successfully'',
        \<lparr>ItemsRepository =
           \<lparr>docs = [(7, potion\<lparr>Price := 9, Version := 2, UpdatedAt := 2000\<rparr>)],
            calls = [CallGetByID, CallUpdate]\<rparr>\<rparr>)"
    by (simp add: updateItemHandler_def GetByID_def Update_def shop_def potion_def price_only_def
        copyInput_def HasErrors_ValidateItem GetID_def GetVersion_def SetVersion_def
        schema_ok_def unique_ok_def Let_def)
  have h2: "map_of (docs (ItemsRepository shop)) 7 = Some potion" by (simp add: shop_def)
  have h3: "ID potion = 7" by (simp add: potion_def)
  from successful_update_effect [OF h1 h2 h3] h1 show ?thesis
    by (simp add: shop_def potion_def price_only_def)
qed




section \<open>The consumer\<close>

text \<open>
  An event whose version is at most the stored version changes nothing and is
  acknowledged.
\<close>

lemma handleMessage_stale:
  assumes "map_of us (msg_ID m) = Some stored"
    and "sint (msg_Version m) \<le> sint (UserVersion stored)"
  shows "handleMessage (Some m) us = (Ack, us)"
  using assms by (simp add: handleMessage_def users_GetByID_def)

text \<open>
  The first event for an unknown user adds one replica, and the same event delivered
  again is acknowledged and changes nothing.
\<close>

lemma handleMessage_first:
  assumes "map_of us (msg_ID m) = None"
  shows "handleMessage (Some m) us = (Ack, us @ [(msg_ID m, replicaOf m)])"
    and "handleMessage (Some m) (us @ [(msg_ID m, replicaOf m)])
           = (Ack, us @ [(msg_ID m, replicaOf m)])"
proof -
  show "handleMessage (Some m) us = (Ack, us @ [(msg_ID m, replicaOf m)])"
    using assms by (simp add: handleMessage_def users_GetByID_def users_Create_def replicaOf_def)
  have "map_of (us @ [(msg_ID m, replicaOf m)]) (msg_ID m) = Some (replicaOf m)"
    using assms by (simp add: map_add_def)
  then show "handleMessage (Some m) (us @ [(msg_ID m, replicaOf m)])
           = (Ack, us @ [(msg_ID m, replicaOf m)])"
    by (rule handleMessage_stale) (simp add: replicaOf_def)
qed

lemma handleMessage_undecoded: "handleMessage None us = (Nack, us)"
  by (simp add: handleMessage_def)

text \<open>
  An event with a greater version: the entity handed to \<open>update\<close> carries the
  incoming version, no stored document has that identifier and that version, and the
  conditional write of section 4.1 answers \<open>EditConflict\<close>. The message is not
  acknowledged and the replica keeps its fields and its version.
\<close>

lemma handleMessage_newer_conflict:
  assumes "map_of us (msg_ID m) = Some stored" and "UserID stored = msg_ID m"
    and "sint (UserVersion stored) < sint (msg_Version m)"
  shows "handleMessage (Some m) us = (Nack, us)"
proof -
  from assms(3) have "UserVersion stored \<noteq> msg_Version m" by auto
  with assms show ?thesis
    by (simp add: handleMessage_def users_GetByID_def users_Update_def)
qed

text \<open>The run of versions 3, 2, 5 for one user leaves the replica at version 3.\<close>

lemma consume_3_2_5:
  "consume [Some (alice 3 [''catalog:read'']), Some (alice 2 []),
            Some (alice 5 [''catalog:read'', ''catalog:write''])] []
     = [(42, replicaOf (alice 3 [''catalog:read'']))]"
proof -
  let ?e3 = "alice 3 [''catalog:read'']"
  let ?e2 = "alice 2 []"
  let ?e5 = "alice 5 [''catalog:read'', ''catalog:write'']"
  have first: "handleMessage (Some ?e3) [] = (Ack, [(42, replicaOf ?e3)])"
    using handleMessage_first(1) [where us = "[]" and m = ?e3] by (simp add: alice_def)
  have stale: "handleMessage (Some ?e2) [(42, replicaOf ?e3)] = (Ack, [(42, replicaOf ?e3)])"
    by (rule handleMessage_stale [where stored = "replicaOf ?e3"])
      (simp_all add: alice_def replicaOf_def)
  have newer: "handleMessage (Some ?e5) [(42, replicaOf ?e3)] = (Nack, [(42, replicaOf ?e3)])"
    by (rule handleMessage_newer_conflict [where stored = "replicaOf ?e3"])
      (simp_all add: alice_def replicaOf_def)
  show ?thesis by (simp add: first stale newer)
qed

section \<open>Pagination\<close>

lemma ceiling_pages:
  assumes "0 \<le> n" "1 \<le> p"
  shows "n \<le> \<lceil>real_of_int n / real_of_int p\<rceil> * p"
    and "(\<lceil>real_of_int n / real_of_int p\<rceil> - 1) * p < n"
proof -
  let ?c = "\<lceil>real_of_int n / real_of_int p\<rceil>"
  have p: "0 < real_of_int p" using assms by simp
  have "real_of_int n \<le> real_of_int ?c * real_of_int p"
    unfolding pos_divide_le_eq [OF p, symmetric] by (rule le_of_int_ceiling)
  then have "real_of_int n \<le> real_of_int (?c * p)" by simp
  then show "n \<le> ?c * p" by (simp only: of_int_le_iff)
  have "(real_of_int ?c - 1) * real_of_int p < real_of_int n"
    unfolding pos_less_divide_eq [OF p, symmetric]
    using ceiling_correct [of "real_of_int n / real_of_int p"] by simp
  then have "real_of_int ((?c - 1) * p) < real_of_int n" by simp
  then show "(?c - 1) * p < n" by (simp only: of_int_less_iff)
qed

text \<open>
  C9. For a listing whose query matches N documents, asked with a page number and
  a page size that are positive, \<open>GetAll\<close> returns a page and metadata, never an
  error. The metadata reports N records and the ceiling of N over the page size as
  the number of pages, with the page and the page size asked for. A page beyond the
  last one is empty, with the same totals; a page up to the last one is not empty.
  When nothing matches, the page is empty and both totals are zero.
\<close>

theorem GetAll_pagination:
  assumes "1 \<le> Page f" and "1 \<le> PageSize f"
  shows "\<exists>items md. GetAll matching f = Inr (items, md)
           \<and> TotalRecords md = int (length matching)
           \<and> TotalPages md = \<lceil>real (length matching) / real_of_int (PageSize f)\<rceil>
           \<and> CurrentPage md = Page f \<and> MetaPageSize md = PageSize f
           \<and> (TotalPages md < Page f \<longrightarrow> items = [])
           \<and> (Page f \<le> TotalPages md \<longrightarrow> items \<noteq> [])
           \<and> (matching = [] \<longrightarrow> items = [] \<and> TotalRecords md = 0 \<and> TotalPages md = 0)"
proof -
  let ?n = "int (length matching)"
  let ?c = "\<lceil>real_of_int ?n / real_of_int (PageSize f)\<rceil>"
  let ?skip = "nat ((Page f - 1) * PageSize f)"
  let ?items = "take (nat (PageSize f)) (drop ?skip matching)"
  have le: "?n \<le> ?c * PageSize f" and gt: "(?c - 1) * PageSize f < ?n"
    using ceiling_pages [of ?n "PageSize f"] assms by simp_all
  have beyond: "?items = []" if "?c < Page f"
  proof -
    from that have "?c \<le> Page f - 1" by simp
    with assms have "?c * PageSize f \<le> (Page f - 1) * PageSize f"
      by (intro mult_right_mono) simp_all
    with le have "?n \<le> (Page f - 1) * PageSize f" by simp
    then have "length matching \<le> ?skip" by simp
    then show ?thesis by simp
  qed
  have within: "?items \<noteq> []" if "Page f \<le> ?c"
  proof -
    from that assms have "(Page f - 1) * PageSize f \<le> (?c - 1) * PageSize f"
      by (intro mult_right_mono) simp_all
    with gt have "(Page f - 1) * PageSize f < ?n" by simp
    moreover from assms have "0 \<le> (Page f - 1) * PageSize f" by simp
    ultimately have "?skip < length matching" by linarith
    with assms show ?thesis by simp
  qed
  show ?thesis
    using beyond within
    by (intro exI [of _ ?items] exI [of _ "calculateMetadata ?n (Page f) (PageSize f)"])
      (simp add: GetAll_def calculateMetadata_def Let_def)
qed

theorem GetAll_pagination_witness:
  "GetAll [potion, potion\<lparr>ID := 8\<rparr>, potion\<lparr>ID := 9\<rparr>, potion\<lparr>ID := 10\<rparr>, potion\<lparr>ID := 11\<rparr>,
           potion\<lparr>ID := 12\<rparr>, potion\<lparr>ID := 13\<rparr>]
     \<lparr>Page = 4, PageSize = 3, Sort = ''_id'', SortSafelist = [''_id'']\<rparr>
   = Inr ([], \<lparr>CurrentPage = 4, MetaPageSize = 3, TotalPages = 3, TotalRecords = 7\<rparr>)
   \<and> GetAll [potion, potion\<lparr>ID := 8\<rparr>, potion\<lparr>ID := 9\<rparr>, potion\<lparr>ID := 10\<rparr>, potion\<lparr>ID := 11\<rparr>,
           potion\<lparr>ID := 12\<rparr>, potion\<lparr>ID := 13\<rparr>]
     \<lparr>Page = 3, PageSize = 3, Sort = ''_id'', SortSafelist = [''_id'']\<rparr>
   = Inr ([potion\<lparr>ID := 13\<rparr>],
          \<lparr>CurrentPage = 3, MetaPageSize = 3, TotalPages = 3, TotalRecords = 7\<rparr>)
   \<and> GetAll ([] :: Item list) \<lparr>Page = 1, PageSize = 3, Sort = ''_id'', SortSafelist = [''_id'']\<rparr>
   = Inr ([], \<lparr>CurrentPage = 1, MetaPageSize = 3, TotalPages = 0, TotalRecords = 0\<rparr>)"
proof -
  let ?all = "[potion, potion\<lparr>ID := 8\<rparr>, potion\<lparr>ID := 9\<rparr>, potion\<lparr>ID := 10\<rparr>,
               potion\<lparr>ID := 11\<rparr>, potion\<lparr>ID := 12\<rparr>, potion\<lparr>ID := 13\<rparr>]"
  let ?f = "\<lambda>p. \<lparr>Page = p, PageSize = 3, Sort = ''_id'', SortSafelist = [''_id'']\<rparr>"
  have c: "\<lceil>(7::real) / 3\<rceil> = 3" by (simp add: ceiling_eq_iff)
  from GetAll_pagination [of "?f 4" ?all] c
  have p4: "GetAll ?all (?f 4)
              = Inr ([], \<lparr>CurrentPage = 4, MetaPageSize = 3, TotalPages = 3, TotalRecords = 7\<rparr>)"
    by auto
  have p3: "GetAll ?all (?f 3)
              = Inr ([potion\<lparr>ID := 13\<rparr>],
                     \<lparr>CurrentPage = 3, MetaPageSize = 3, TotalPages = 3, TotalRecords = 7\<rparr>)"
    using c by (simp add: GetAll_def calculateMetadata_def)
  from GetAll_pagination [of "?f 1" "[] :: Item list"]
  have p0: "GetAll ([] :: Item list) (?f 1)
              = Inr ([], \<lparr>CurrentPage = 1, MetaPageSize = 3, TotalPages = 0, TotalRecords = 0\<rparr>)"
    by auto
  from p4 p3 p0 show ?thesis by simp
qed

end
